theory Spec2Isabelle
  imports Main
begin

section \<open>Go values used by the listener module\<close>

text \<open>
  Go strings and byte slices are sequences of bytes; both are modelled as \<open>string\<close>.
  The registration function can end in three ways: it returns a value, it returns an
  error, or it panics (Go's run-time check of a slice expression). The errors carry the
  names of the specification's taxonomy; the comment on each gives the message of the
  source.
\<close>

type_synonym bytes = string

datatype error =
    ContextTypeError            \<comment> \<open>"context is not a caddy.Context"\<close>
  | SchemeMismatchError         \<comment> \<open>"multiaddr URI network only handles multiaddr URIs"\<close>
  | MalformedPort               \<comment> \<open>"invalid port %w", wrapping the error of strconv.Atoi\<close>
  | MalformedAddress string     \<comment> \<open>"could not parse multiaddr: %w"\<close>
  | AppLookupError string       \<comment> \<open>the error of cctx.App, returned as it is\<close>
  | IOError string              \<comment> \<open>the error of os.ReadFile, returned as it is\<close>
  | EnvelopeFormatError bytes   \<comment> \<open>"PEM block not found in input data", with the rest\<close>
  | UnexpectedKeyType string    \<comment> \<open>"expected PRIVATE KEY type in PEM block but got: %s"\<close>
  | KeyDecodeError string       \<comment> \<open>"parsing PKCS8 format: %w"\<close>
  | KeyConversionError string   \<comment> \<open>"converting std Go key to libp2p key: %w"\<close>
  | HostConstructionError string \<comment> \<open>the error of libp2p.New, returned as it is\<close>
  | ListenError string          \<comment> \<open>the error of gostream.Listen, returned as it is\<close>

datatype 'a outcome = Panic | Err error | Ok 'a

subsection \<open>strings.LastIndex, slice expressions, strconv.Atoi\<close>

text \<open>
  \<open>strings.LastIndex(s, ":")\<close>: the index of the last occurrence of the one-byte
  separator, or \<open>-1\<close> when there is none.
\<close>

fun LastIndex :: "string \<Rightarrow> char \<Rightarrow> int" where
  "LastIndex [] c = - 1"
| "LastIndex (x # xs) c =
     (if 0 \<le> LastIndex xs c then LastIndex xs c + 1
      else if x = c then 0 else - 1)"

text \<open>
  The slice expressions \<open>s[i:]\<close> and \<open>s[:j]\<close>. Go panics when the index is outside
  \<open>0 .. len(s)\<close>; \<open>None\<close> is that panic.
\<close>

definition sliceFrom :: "string \<Rightarrow> int \<Rightarrow> string option" where
  "sliceFrom s i = (if 0 \<le> i \<and> i \<le> int (length s) then Some (drop (nat i) s) else None)"

definition sliceTo :: "string \<Rightarrow> int \<Rightarrow> string option" where
  "sliceTo s j = (if 0 \<le> j \<and> j \<le> int (length s) then Some (take (nat j) s) else None)"

text \<open>
  \<open>strconv.Atoi\<close> on a platform whose \<open>int\<close> has 64 bits: an optional sign, then one
  or more decimal digits, the value within the range of \<open>int\<close>. \<open>None\<close> stands for the
  \<open>*strconv.NumError\<close> (syntax or range) it returns otherwise.
\<close>

definition isDigit :: "char \<Rightarrow> bool" where
  "isDigit c = (48 \<le> (of_char c :: nat) \<and> (of_char c :: nat) \<le> 57)"

fun parseDigits :: "string \<Rightarrow> int \<Rightarrow> int option" where
  "parseDigits [] acc = Some acc"
| "parseDigits (c # cs) acc =
     (if isDigit c then parseDigits cs (acc * 10 + (int (of_char c) - 48)) else None)"

definition Atoi :: "string \<Rightarrow> int option" where
  "Atoi s =
     (let neg = (case s of [] \<Rightarrow> False | c # _ \<Rightarrow> c = CHR ''-'');
          ds = (case s of
                  [] \<Rightarrow> []
                | c # r \<Rightarrow> if c = CHR ''-'' \<or> c = CHR ''+'' then r else s)
      in if ds = [] then None
         else (case parseDigits ds 0 of
                 None \<Rightarrow> None
               | Some n \<Rightarrow>
                   (let v = (if neg then - n else n)
                    in if v < - (2 ^ 63) \<or> 2 ^ 63 \<le> v then None else Some v)))"

subsection \<open>Splitting the port off the address (module.go, lines 112 to 121)\<close>

text \<open>
  The variable \<open>port\<close> is declared without a value, so it is 0 unless the text after
  the last colon is parsed into it. The port is parsed, and a bad port returned as an
  error, before the address is sliced.
\<close>

definition splitPort :: "string \<Rightarrow> (string \<times> int) outcome" where
  "splitPort addr =
     (let lastColon = LastIndex addr CHR '':''
      in if lastColon \<noteq> int (length addr) - 1 then
           (case sliceFrom addr (lastColon + 1) of
              None \<Rightarrow> Panic
            | Some portText \<Rightarrow>
                (case Atoi portText of
                   None \<Rightarrow> Err MalformedPort
                 | Some port \<Rightarrow>
                     (case sliceTo addr lastColon of
                        None \<Rightarrow> Panic
                      | Some addr' \<Rightarrow> Ok (addr', port))))
         else
           (case sliceTo addr lastColon of
              None \<Rightarrow> Panic
            | Some addr' \<Rightarrow> Ok (addr', 0)))"

section \<open>The application's settings and the external collaborators\<close>

text \<open>
  The settings of the libp2p app (app.go): the path of the key file, empty when none is
  configured, and the flag that asks for the addresses to be advertised in the Amino DHT.
\<close>

record App =
  PrivateKey :: string
  AdvertiseAmino :: bool

text \<open>
  The context handed to the registration function either is a \<open>caddy.Context\<close>, which
  then looks the app up by name, or is some other context.
\<close>

datatype Context = CaddyContext "string \<Rightarrow> string + App" | OtherContext

text \<open>
  What \<open>x509.ParsePKCS8PrivateKey\<close> can return behind Go's \<open>any\<close>: a key of some
  algorithm, held by value or behind a pointer. The type assertion
  \<open>stdKey.(ed25519.PrivateKey)\<close> succeeds on an ed25519 key held by value only.
\<close>

datatype keyAlg = RSA | ECDSA | Ed25519 | ECDH

datatype StdKey = KeyValue keyAlg bytes | KeyPointer keyAlg bytes

record pemBlock =
  pemType :: string
  pemBytes :: bytes

text \<open>
  The options of \<open>libp2p.New\<close> the function assembles. \<open>Routing (DHT m)\<close> is the
  routing option whose constructor is \<open>dht.New(ctx, host, dht.Mode(m))\<close>, its result
  and error returned as they are.
\<close>

datatype dhtMode = ModeAuto | ModeClient | ModeServer | ModeAutoServer

datatype routingCtor = DHT dhtMode

datatype transportCtor = WebRTC

datatype ('ma, 'sk) hostOption =
    ListenAddrs 'ma
  | DefaultTransports
  | Transport transportCtor
  | Identity 'sk
  | Routing routingCtor

datatype listenOption = IgnoreEOF

text \<open>
  The libraries the function calls are parameters of the model: each is a function from
  the arguments of the call to its error (a message) or its result. The two constants of
  the libp2p HTTP package the module uses are parameters as well.
\<close>

record ('ma, 'sk, 'host, 'lst) env =
  NewMultiaddr :: "string \<Rightarrow> string + 'ma"
  ReadFile :: "string \<Rightarrow> string + bytes"
  pemDecode :: "bytes \<Rightarrow> pemBlock option \<times> bytes"
  ParsePKCS8PrivateKey :: "bytes \<Rightarrow> string + StdKey"
  KeyPairFromStdKey :: "StdKey \<Rightarrow> string + 'sk"
  libp2pNew :: "('ma, 'sk) hostOption list \<Rightarrow> string + 'host"
  gostreamListen :: "'host \<Rightarrow> string \<Rightarrow> listenOption list \<Rightarrow> string + 'lst"
  ProtocolIDForMultistreamSelect :: string
  WellKnownProtocols :: string

text \<open>
  The calls with an effect outside the function, in the order they are made: reading the
  key file, building the host, printing its identifier and addresses, and opening the
  listener on the host.
\<close>

datatype ('ma, 'sk, 'host) event =
    EvReadFile string
  | EvLibp2pNew "('ma, 'sk) hostOption list"
  | EvPrintID 'host
  | EvPrintAddrs 'host
  | EvListen 'host string

fun isLibp2pNew :: "('ma, 'sk, 'host) event \<Rightarrow> bool" where
  "isLibp2pNew (EvLibp2pNew opts) = True"
| "isLibp2pNew _ = False"

fun isListen :: "('ma, 'sk, 'host) event \<Rightarrow> bool" where
  "isListen (EvListen h p) = True"
| "isListen _ = False"

section \<open>The registration function\<close>

subsection \<open>Parsing the address (module.go, lines 112 to 126)\<close>

definition parseAddress ::
  "('ma, 'sk, 'host, 'lst) env \<Rightarrow> string \<Rightarrow> ('ma \<times> int) outcome" where
  "parseAddress env addr =
     (case splitPort addr of
        Panic \<Rightarrow> Panic
      | Err e \<Rightarrow> Err e
      | Ok (addr', port) \<Rightarrow>
          (case NewMultiaddr env (''/'' @ addr') of
             Inl m \<Rightarrow> Err (MalformedAddress m)
           | Inr ma \<Rightarrow> Ok (ma, port)))"

subsection \<open>Loading the identity (module.go, lines 147 to 178)\<close>

definition ed25519Pointer :: "StdKey \<Rightarrow> StdKey" where
  "ed25519Pointer stdKey =
     (case stdKey of
        KeyValue alg material \<Rightarrow>
          (if alg = Ed25519 then KeyPointer Ed25519 material else stdKey)
      | KeyPointer alg material \<Rightarrow> stdKey)"

definition loadIdentity ::
  "('ma, 'sk, 'host, 'lst) env \<Rightarrow> App
     \<Rightarrow> ('ma, 'sk, 'host) event list \<times> 'sk option outcome" where
  "loadIdentity env app =
     (if PrivateKey app = [] then ([], Ok None)
      else
        ([EvReadFile (PrivateKey app)],
         (case ReadFile env (PrivateKey app) of
            Inl m \<Rightarrow> Err (IOError m)
          | Inr privFile \<Rightarrow>
              (case pemDecode env privFile of
                 (None, rest) \<Rightarrow> Err (EnvelopeFormatError rest)
               | (Some blk, rest) \<Rightarrow>
                   if pemType blk \<noteq> ''PRIVATE KEY''
                   then Err (UnexpectedKeyType (pemType blk))
                   else
                     (case ParsePKCS8PrivateKey env (pemBytes blk) of
                        Inl m \<Rightarrow> Err (KeyDecodeError m)
                      | Inr stdKey \<Rightarrow>
                          (case KeyPairFromStdKey env (ed25519Pointer stdKey) of
                             Inl m \<Rightarrow> Err (KeyConversionError m)
                           | Inr sk \<Rightarrow> Ok (Some sk)))))))"

subsection \<open>Building the host and the listener (module.go, lines 180 to 199)\<close>

definition hostOptions :: "'ma \<Rightarrow> 'sk option \<Rightarrow> App \<Rightarrow> ('ma, 'sk) hostOption list" where
  "hostOptions ma sk app =
     [ListenAddrs ma, DefaultTransports, Transport WebRTC]
     @ (case sk of None \<Rightarrow> [] | Some k \<Rightarrow> [Identity k])
     @ (if AdvertiseAmino app then [Routing (DHT ModeClient)] else [])"

definition startHost ::
  "('ma, 'sk, 'host, 'lst) env \<Rightarrow> ('ma, 'sk) hostOption list \<Rightarrow> listenOption list
     \<Rightarrow> ('ma, 'sk, 'host) event list \<times> 'lst outcome" where
  "startHost env opts lopts =
     (case libp2pNew env opts of
        Inl m \<Rightarrow> ([EvLibp2pNew opts], Err (HostConstructionError m))
      | Inr h \<Rightarrow>
          ([EvLibp2pNew opts, EvPrintID h, EvPrintAddrs h,
            EvListen h (ProtocolIDForMultistreamSelect env)],
           (case gostreamListen env h (ProtocolIDForMultistreamSelect env) lopts of
              Inl m \<Rightarrow> Err (ListenError m)
            | Inr l \<Rightarrow> Ok l)))"

subsection \<open>registerMultiaddrURI (module.go, lines 102 to 200)\<close>

definition registerMultiaddrURI ::
  "('ma, 'sk, 'host, 'lst) env \<Rightarrow> Context \<Rightarrow> string \<Rightarrow> string
     \<Rightarrow> ('ma, 'sk, 'host) event list \<times> 'lst outcome" where
  "registerMultiaddrURI env ctx network addr =
     (case ctx of
        OtherContext \<Rightarrow> ([], Err ContextTypeError)
      | CaddyContext cctx \<Rightarrow>
          if network \<noteq> ''multiaddr:'' then ([], Err SchemeMismatchError)
          else
            (case parseAddress env addr of
               Panic \<Rightarrow> ([], Panic)
             | Err e \<Rightarrow> ([], Err e)
             | Ok (ma, port) \<Rightarrow>
                 (case cctx ''libp2p'' of
                    Inl m \<Rightarrow> ([], Err (AppLookupError m))
                  | Inr app \<Rightarrow>
                      (case loadIdentity env app of
                         (tr, Panic) \<Rightarrow> (tr, Panic)
                       | (tr, Err e) \<Rightarrow> (tr, Err e)
                       | (tr, Ok sk) \<Rightarrow>
                           (case startHost env (hostOptions ma sk app) [IgnoreEOF] of
                              (tr', r) \<Rightarrow> (tr @ tr', r))))))"

subsection \<open>The other version of the function (src/unnamed/part_000, lines 30 to 128)\<close>

text \<open>
  Lines 40 to 49 (the port), 75 to 106 (the identity) and 108 to 122 (the options and
  the host) are those of module.go; the network token, the text handed to
  \<open>multiaddr.NewMultiaddr\<close> and the options of \<open>gostream.Listen\<close> are not.
\<close>

definition parseAddress_part000 ::
  "('ma, 'sk, 'host, 'lst) env \<Rightarrow> string \<Rightarrow> ('ma \<times> int) outcome" where
  "parseAddress_part000 env addr =
     (case splitPort addr of
        Panic \<Rightarrow> Panic
      | Err e \<Rightarrow> Err e
      | Ok (addr', port) \<Rightarrow>
          (case NewMultiaddr env addr' of
             Inl m \<Rightarrow> Err (MalformedAddress m)
           | Inr ma \<Rightarrow> Ok (ma, port)))"

definition registerMultiaddrURI_part000 ::
  "('ma, 'sk, 'host, 'lst) env \<Rightarrow> Context \<Rightarrow> string \<Rightarrow> string
     \<Rightarrow> ('ma, 'sk, 'host) event list \<times> 'lst outcome" where
  "registerMultiaddrURI_part000 env ctx network addr =
     (case ctx of
        OtherContext \<Rightarrow> ([], Err ContextTypeError)
      | CaddyContext cctx \<Rightarrow>
          if network \<noteq> ''multiaddr'' then ([], Err SchemeMismatchError)
          else
            (case parseAddress_part000 env addr of
               Panic \<Rightarrow> ([], Panic)
             | Err e \<Rightarrow> ([], Err e)
             | Ok (ma, port) \<Rightarrow>
                 (case cctx ''libp2p'' of
                    Inl m \<Rightarrow> ([], Err (AppLookupError m))
                  | Inr app \<Rightarrow>
                      (case loadIdentity env app of
                         (tr, Panic) \<Rightarrow> (tr, Panic)
                       | (tr, Err e) \<Rightarrow> (tr, Err e)
                       | (tr, Ok sk) \<Rightarrow>
                           (case startHost env (hostOptions ma sk app) [] of
                              (tr', r) \<Rightarrow> (tr @ tr', r))))))"

section \<open>The handler of the well-known path (module.go, lines 73 to 79)\<close>

text \<open>
  A request has a method and a path. The response writer is a state \<open>'w\<close>: the
  well-known handler of the libp2p HTTP host writes to it, the next handler writes to it
  and may return an error. The handler's result says which of the two was called, with
  which request, the writer afterwards, and the error returned.
\<close>

record request =
  reqMethod :: string
  reqURLPath :: string
  reqBody :: bytes

datatype handlerCall = CalledWellKnown request | CalledNext request

definition ServeHTTP ::
  "('ma, 'sk, 'host, 'lst) env \<Rightarrow> ('w \<Rightarrow> request \<Rightarrow> 'w) \<Rightarrow> 'w \<Rightarrow> request
     \<Rightarrow> ('w \<Rightarrow> request \<Rightarrow> 'w \<times> string option)
     \<Rightarrow> handlerCall list \<times> 'w \<times> string option" where
  "ServeHTTP env wellKnownHandler w r next =
     (if reqURLPath r = WellKnownProtocols env
      then ([CalledWellKnown r], wellKnownHandler w r, None)
      else ([CalledNext r], next w r))"

section \<open>A sample environment\<close>

text \<open>
  Stand-ins for the libraries, to run the functions above on concrete inputs. The
  stand-in for \<open>multiaddr.NewMultiaddr\<close> follows the textual rules of the multiaddr
  library for a handful of protocols: trailing slashes are dropped, the text is split at
  the slashes, it has to begin with a slash and to name at least one protocol, every
  protocol name has to be known, and a protocol that takes a value has to be followed by
  a valid one. The structured address is the sequence of (protocol, value) pairs.
\<close>

fun Split :: "string \<Rightarrow> char \<Rightarrow> string list" where
  "Split [] c = [[]]"
| "Split (x # xs) c =
     (if x = c then [] # Split xs c
      else (case Split xs c of [] \<Rightarrow> [[x]] | w # ws \<Rightarrow> (x # w) # ws))"

definition TrimRight :: "string \<Rightarrow> char \<Rightarrow> string" where
  "TrimRight s c = rev (dropWhile (\<lambda>x. x = c) (rev s))"

definition validPort :: "string \<Rightarrow> bool" where
  "validPort v = (case Atoi v of None \<Rightarrow> False | Some n \<Rightarrow> 0 \<le> n \<and> n < 65536)"

definition validIP4 :: "string \<Rightarrow> bool" where
  "validIP4 v =
     (length (Split v CHR ''.'') = 4 \<and>
      list_all
        (\<lambda>p. p \<noteq> [] \<and> (case parseDigits p 0 of None \<Rightarrow> False | Some n \<Rightarrow> n \<le> 255))
        (Split v CHR ''.''))"

definition sampleProtocols :: "(string \<times> (string \<Rightarrow> bool) option) list" where
  "sampleProtocols =
     [(''ip4'', Some validIP4), (''tcp'', Some validPort), (''udp'', Some validPort),
      (''quic-v1'', None), (''webrtc-direct'', None)]"

fun sampleComponents :: "string list \<Rightarrow> string + (string \<times> string) list" where
  "sampleComponents [] = Inr []"
| "sampleComponents (name # rest) =
     (case map_of sampleProtocols name of
        None \<Rightarrow> Inl ''unknown protocol''
      | Some None \<Rightarrow>
          (case sampleComponents rest of
             Inl m \<Rightarrow> Inl m
           | Inr cs \<Rightarrow> Inr ((name, []) # cs))
      | Some (Some valid) \<Rightarrow>
          (case rest of
             [] \<Rightarrow> Inl ''unexpected end of multiaddr''
           | v # rest' \<Rightarrow>
               if valid v then
                 (case sampleComponents rest' of
                    Inl m \<Rightarrow> Inl m
                  | Inr cs \<Rightarrow> Inr ((name, v) # cs))
               else Inl ''invalid value''))"

definition sampleNewMultiaddr :: "string \<Rightarrow> string + (string \<times> string) list" where
  "sampleNewMultiaddr s =
     (case Split (TrimRight s CHR ''/'') CHR ''/'' of
        [] \<Rightarrow> Inl ''must begin with /''
      | first # sp \<Rightarrow>
          if first \<noteq> [] then Inl ''must begin with /''
          else if sp = [] then Inl ''empty multiaddr''
          else sampleComponents sp)"

text \<open>
  The other stand-ins: four files, of which one holds an ed25519 key, one an RSA key, one
  a certificate and one no PEM block; a key conversion that takes keys behind a pointer only; a host
  that is the list of its options, and a listener that is the host, the protocol and
  the options it was opened with. The parser of multiaddrs is a parameter.
\<close>

definition sampleEnvWith ::
  "(string \<Rightarrow> string + 'ma)
     \<Rightarrow> ('ma, StdKey, ('ma, StdKey) hostOption list,
         ('ma, StdKey) hostOption list \<times> string \<times> listenOption list) env" where
  "sampleEnvWith parser =
     \<lparr> NewMultiaddr = parser,
       ReadFile = (\<lambda>path.
         if path = ''key.pem'' then Inr ''<private key>''
         else if path = ''rsa.pem'' then Inr ''<rsa private key>''
         else if path = ''cert.pem'' then Inr ''<certificate>''
         else if path = ''notes.txt'' then Inr ''hello''
         else Inl ''no such file or directory''),
       pemDecode = (\<lambda>data.
         if data = ''<private key>''
         then (Some \<lparr> pemType = ''PRIVATE KEY'', pemBytes = ''ed25519'' \<rparr>, [])
         else if data = ''<rsa private key>''
         then (Some \<lparr> pemType = ''PRIVATE KEY'', pemBytes = ''rsa'' \<rparr>, [])
         else if data = ''<certificate>''
         then (Some \<lparr> pemType = ''CERTIFICATE'', pemBytes = ''cert'' \<rparr>, [])
         else (None, data)),
       ParsePKCS8PrivateKey = (\<lambda>der.
         if der = ''ed25519'' then Inr (KeyValue Ed25519 ''seed'')
         else if der = ''rsa'' then Inr (KeyPointer RSA ''primes'')
         else Inl ''x509: failed to parse private key''),
       KeyPairFromStdKey = (\<lambda>k.
         case k of
           KeyValue alg material \<Rightarrow> Inl ''unsupported key type''
         | KeyPointer alg material \<Rightarrow> Inr k),
       libp2pNew = (\<lambda>opts. Inr opts),
       gostreamListen = (\<lambda>h p lopts. Inr (h, p, lopts)),
       ProtocolIDForMultistreamSelect = ''/http/1.1'',
       WellKnownProtocols = ''/.well-known/libp2p/protocols'' \<rparr>"

definition sampleEnv ::
  "((string \<times> string) list, StdKey, ((string \<times> string) list, StdKey) hostOption list,
    ((string \<times> string) list, StdKey) hostOption list \<times> string \<times> listenOption list) env" where
  "sampleEnv = sampleEnvWith sampleNewMultiaddr"

definition sampleContext :: "App \<Rightarrow> Context" where
  "sampleContext app =
     CaddyContext (\<lambda>name. if name = ''libp2p'' then Inr app else Inl ''unknown app'')"

text \<open>An environment in which building a host fails whenever routing is asked for.\<close>

definition failingRoutingEnv ::
  "((string \<times> string) list, StdKey, ((string \<times> string) list, StdKey) hostOption list,
    ((string \<times> string) list, StdKey) hostOption list \<times> string \<times> listenOption list) env" where
  "failingRoutingEnv =
     sampleEnv \<lparr> libp2pNew := (\<lambda>opts.
       if list_ex (\<lambda>opt. opt = Routing (DHT ModeClient)) opts
       then Inl ''routing: dht construction failed''
       else Inr opts) \<rparr>"

section \<open>Properties of the address parsing\<close>

lemma LastIndex_absent: "c \<notin> set s \<Longrightarrow> LastIndex s c = - 1"
  by (induction s) auto

lemma LastIndex_present: "c \<in> set s \<Longrightarrow> 0 \<le> LastIndex s c"
  by (induction s) auto

lemma LastIndex_upper: "LastIndex s c < int (length s)"
  by (induction s) auto

lemma LastIndex_append: "c \<notin> set p \<Longrightarrow> LastIndex (a @ c # p) c = int (length a)"
  by (induction a) (auto simp: LastIndex_absent)

lemma splitPort_trailing: "splitPort (a @ [CHR '':'']) = Ok (a, 0)"
  using LastIndex_append [of "CHR '':''" "[]" a]
  by (simp add: splitPort_def sliceTo_def)

lemma splitPort_port:
  assumes "CHR '':'' \<notin> set p" and "p \<noteq> []"
  shows "splitPort (a @ CHR '':'' # p) =
           (case Atoi p of None \<Rightarrow> Err MalformedPort | Some n \<Rightarrow> Ok (a, n))"
proof -
  have idx: "LastIndex (a @ CHR '':'' # p) CHR '':'' = int (length a)"
    using assms(1) by (rule LastIndex_append)
  have suc: "nat (int (length a) + 1) = Suc (length a)" by simp
  have ne: "int (length a) \<noteq> int (length (a @ CHR '':'' # p)) - 1"
    using assms(2) by (cases p) auto
  show ?thesis
    unfolding splitPort_def Let_def idx using ne
    by (simp add: sliceTo_def sliceFrom_def suc del: of_nat_Suc split: option.splits)
qed

lemma splitPort_no_colon:
  assumes "CHR '':'' \<notin> set s"
  shows "splitPort s =
           (if s = [] then Panic
            else (case Atoi s of None \<Rightarrow> Err MalformedPort | Some n \<Rightarrow> Panic))"
  using assms LastIndex_absent [of "CHR '':''" s]
  by (auto simp add: splitPort_def sliceTo_def sliceFrom_def split: option.splits)

lemma splitPort_Panic_iff:
  "splitPort s = Panic \<longleftrightarrow> CHR '':'' \<notin> set s \<and> (s = [] \<or> Atoi s \<noteq> None)"
proof (cases "CHR '':'' \<in> set s")
  case False
  then show ?thesis by (auto simp: splitPort_no_colon split: option.splits)
next
  case True
  then have "0 \<le> LastIndex s CHR '':''" by (rule LastIndex_present)
  moreover have "LastIndex s CHR '':'' < int (length s)" by (rule LastIndex_upper)
  ultimately show ?thesis using True
    by (auto simp: splitPort_def sliceTo_def sliceFrom_def Let_def split: option.splits)
qed

lemma Atoi_4001: "Atoi ''4001'' = Some 4001"
  by (simp add: Atoi_def isDigit_def)

lemma Atoi_minus_1: "Atoi ''-1'' = Some (- 1)"
  by (simp add: Atoi_def isDigit_def)

lemma Atoi_http: "Atoi ''http'' = None"
  by (simp add: Atoi_def isDigit_def)

lemma parseAddress_Panic_iff:
  "parseAddress env s = Panic \<longleftrightarrow> CHR '':'' \<notin> set s \<and> (s = [] \<or> Atoi s \<noteq> None)"
  using splitPort_Panic_iff [of s]
  by (auto simp: parseAddress_def split: outcome.splits sum.splits)

lemma token_with_colon: "(network @ '':'' = ''multiaddr:'') = (network = ''multiaddr'')"
proof -
  have "''multiaddr:'' = ''multiaddr'' @ '':''" by simp
  then show ?thesis by (simp only: append1_eq_conv) simp
qed

lemmas sample_defs = sampleEnv_def sampleEnvWith_def sampleNewMultiaddr_def TrimRight_def
  sampleProtocols_def validIP4_def validPort_def Atoi_def isDigit_def sampleContext_def

lemmas register_defs = registerMultiaddrURI_def parseAddress_def loadIdentity_def
  startHost_def hostOptions_def

section \<open>The claims about the address\<close>

text \<open>
  Claim C1, as amended. The version of part_000 hands the text before the last colon to
  the multiaddr parser as it is: from \<open>"/ip4/0.0.0.0/tcp/4001:4001"\<close> the parser gets
  \<open>"/ip4/0.0.0.0/tcp/4001"\<close> and the port is 4001, from \<open>"/ip4/0.0.0.0/tcp/4001:"\<close> it
  gets the same text and no port is parsed (the port stays 0); the call fails only if the
  parser does. The version of module.go puts a slash before that text: it gives these
  results for \<open>"ip4/0.0.0.0/tcp/4001:4001"\<close> and \<open>"ip4/0.0.0.0/tcp/4001:"\<close>, and from
  the addresses that begin with a slash the parser gets \<open>"//ip4/0.0.0.0/tcp/4001"\<close>.
\<close>

theorem scenario_addresses:
  "parseAddress_part000 env ''/ip4/0.0.0.0/tcp/4001:4001'' =
     (case NewMultiaddr env ''/ip4/0.0.0.0/tcp/4001'' of
        Inl m \<Rightarrow> Err (MalformedAddress m) | Inr ma \<Rightarrow> Ok (ma, 4001))
   \<and> parseAddress_part000 env ''/ip4/0.0.0.0/tcp/4001:'' =
     (case NewMultiaddr env ''/ip4/0.0.0.0/tcp/4001'' of
        Inl m \<Rightarrow> Err (MalformedAddress m) | Inr ma \<Rightarrow> Ok (ma, 0))
   \<and> parseAddress env ''ip4/0.0.0.0/tcp/4001:4001'' =
     (case NewMultiaddr env ''/ip4/0.0.0.0/tcp/4001'' of
        Inl m \<Rightarrow> Err (MalformedAddress m) | Inr ma \<Rightarrow> Ok (ma, 4001))
   \<and> parseAddress env ''ip4/0.0.0.0/tcp/4001:'' =
     (case NewMultiaddr env ''/ip4/0.0.0.0/tcp/4001'' of
        Inl m \<Rightarrow> Err (MalformedAddress m) | Inr ma \<Rightarrow> Ok (ma, 0))
   \<and> parseAddress env ''/ip4/0.0.0.0/tcp/4001:4001'' =
     (case NewMultiaddr env ''//ip4/0.0.0.0/tcp/4001'' of
        Inl m \<Rightarrow> Err (MalformedAddress m) | Inr ma \<Rightarrow> Ok (ma, 4001))
   \<and> parseAddress env ''/ip4/0.0.0.0/tcp/4001:'' =
     (case NewMultiaddr env ''//ip4/0.0.0.0/tcp/4001'' of
        Inl m \<Rightarrow> Err (MalformedAddress m) | Inr ma \<Rightarrow> Ok (ma, 0))"
proof -
  have p: "splitPort (''/ip4/0.0.0.0/tcp/4001'' @ CHR '':'' # ''4001'')
             = Ok (''/ip4/0.0.0.0/tcp/4001'', 4001)"
    by (subst splitPort_port) (simp_all add: Atoi_4001)
  have q: "splitPort (''/ip4/0.0.0.0/tcp/4001'' @ '':'') = Ok (''/ip4/0.0.0.0/tcp/4001'', 0)"
    by (rule splitPort_trailing)
  have p': "splitPort (''ip4/0.0.0.0/tcp/4001'' @ CHR '':'' # ''4001'')
             = Ok (''ip4/0.0.0.0/tcp/4001'', 4001)"
    by (subst splitPort_port) (simp_all add: Atoi_4001)
  have q': "splitPort (''ip4/0.0.0.0/tcp/4001'' @ '':'') = Ok (''ip4/0.0.0.0/tcp/4001'', 0)"
    by (rule splitPort_trailing)
  show ?thesis using p q p' q'
    by (simp add: parseAddress_def parseAddress_part000_def)
qed

theorem scenario_addresses_witness:
  "parseAddress_part000 sampleEnv ''/ip4/0.0.0.0/tcp/4001:4001'' =
     Ok ([(''ip4'', ''0.0.0.0''), (''tcp'', ''4001'')], 4001)
   \<and> parseAddress_part000 sampleEnv ''/ip4/0.0.0.0/tcp/4001:'' =
     Ok ([(''ip4'', ''0.0.0.0''), (''tcp'', ''4001'')], 0)
   \<and> parseAddress sampleEnv ''ip4/0.0.0.0/tcp/4001:4001'' =
     Ok ([(''ip4'', ''0.0.0.0''), (''tcp'', ''4001'')], 4001)
   \<and> parseAddress sampleEnv ''ip4/0.0.0.0/tcp/4001:'' =
     Ok ([(''ip4'', ''0.0.0.0''), (''tcp'', ''4001'')], 0)"
  using scenario_addresses [of sampleEnv]
  by (simp add: sample_defs)

text \<open>
  Claim C1 as stated fails on module.go: with a parser that keeps the rules of the
  multiaddr library the address \<open>"/ip4/0.0.0.0/tcp/4001:4001"\<close> is rejected, for the
  empty protocol name between the two slashes; with a parser that returns the text it
  was given, that text is seen to be \<open>"//ip4/0.0.0.0/tcp/4001"\<close>.
\<close>

theorem scenario_address_rejected_by_module:
  "parseAddress sampleEnv ''/ip4/0.0.0.0/tcp/4001:4001'' =
     Err (MalformedAddress ''unknown protocol'')
   \<and> parseAddress (sampleEnvWith Inr) ''/ip4/0.0.0.0/tcp/4001:4001'' =
     Ok (''//ip4/0.0.0.0/tcp/4001'', 4001)
   \<and> parseAddress (sampleEnvWith Inr) ''/ip4/0.0.0.0/tcp/4001:'' =
     Ok (''//ip4/0.0.0.0/tcp/4001'', 0)"
proof -
  have p: "splitPort (''/ip4/0.0.0.0/tcp/4001'' @ CHR '':'' # ''4001'')
             = Ok (''/ip4/0.0.0.0/tcp/4001'', 4001)"
    by (subst splitPort_port) (simp_all add: Atoi_4001)
  have q: "splitPort (''/ip4/0.0.0.0/tcp/4001'' @ '':'') = Ok (''/ip4/0.0.0.0/tcp/4001'', 0)"
    by (rule splitPort_trailing)
  show ?thesis using p q
    by (simp add: parseAddress_def sample_defs)
qed

text \<open>
  Claim C2, as amended. For every raw address whose last colon is followed by some text,
  that text is the port and has to be accepted by \<open>strconv.Atoi\<close>: an optional sign and
  decimal digits, within the range of \<open>int\<close>. The registration fails with MalformedPort
  exactly when it is not, and then nothing has been built and no listener is returned.
  A negative integer is accepted as the port.
\<close>

theorem port_text_must_be_integer:
  assumes "CHR '':'' \<notin> set p" and "p \<noteq> []"
  shows "splitPort (a @ '':'' @ p) =
           (case Atoi p of None \<Rightarrow> Err MalformedPort | Some n \<Rightarrow> Ok (a, n))
         \<and> (snd (registerMultiaddrURI env (CaddyContext cctx) ''multiaddr:'' (a @ '':'' @ p))
               = Err MalformedPort) = (Atoi p = None)
         \<and> (Atoi p = None \<longrightarrow>
              registerMultiaddrURI env (CaddyContext cctx) ''multiaddr:'' (a @ '':'' @ p)
                = ([], Err MalformedPort))"
proof -
  have sp: "splitPort (a @ '':'' @ p) =
           (case Atoi p of None \<Rightarrow> Err MalformedPort | Some n \<Rightarrow> Ok (a, n))"
    using assms by (simp add: splitPort_port)
  show ?thesis
    unfolding sp register_defs
    by (auto split: option.splits sum.splits outcome.splits prod.splits if_splits)
qed

theorem port_text_must_be_integer_witness:
  "splitPort ''ip4/0.0.0.0/tcp/4001:http'' = Err MalformedPort
   \<and> registerMultiaddrURI sampleEnv (sampleContext \<lparr> PrivateKey = [], AdvertiseAmino = False \<rparr>)
        ''multiaddr:'' ''ip4/0.0.0.0/tcp/4001:http'' = ([], Err MalformedPort)"
proof -
  have "CHR '':'' \<notin> set ''http''" and "''http'' \<noteq> []" by simp_all
  from port_text_must_be_integer [OF this, of "''ip4/0.0.0.0/tcp/4001''" sampleEnv
      "\<lambda>name. if name = ''libp2p'' then Inr \<lparr> PrivateKey = [], AdvertiseAmino = False \<rparr>
               else Inl ''unknown app''"]
  show ?thesis by (simp add: Atoi_http sampleContext_def)
qed

text \<open>
  Claim C2 as stated fails: the port text \<open>"-1"\<close> is a negative integer, the split
  returns it as the port, and the registration goes on to return a listener.
\<close>

theorem negative_port_accepted:
  "splitPort ''ip4/0.0.0.0/tcp/4001:-1'' = Ok (''ip4/0.0.0.0/tcp/4001'', - 1)
   \<and> snd (registerMultiaddrURI sampleEnv
            (sampleContext \<lparr> PrivateKey = [], AdvertiseAmino = False \<rparr>)
            ''multiaddr:'' ''ip4/0.0.0.0/tcp/4001:-1'')
       = Ok ([ListenAddrs [(''ip4'', ''0.0.0.0''), (''tcp'', ''4001'')], DefaultTransports,
              Transport WebRTC], ''/http/1.1'', [IgnoreEOF])"
proof -
  have sp: "splitPort (''ip4/0.0.0.0/tcp/4001'' @ CHR '':'' # ''-1'')
             = Ok (''ip4/0.0.0.0/tcp/4001'', - 1)"
    by (subst splitPort_port) (simp_all add: Atoi_minus_1)
  show ?thesis using sp
    by (simp add: register_defs sample_defs)
qed

text \<open>
  Claim C5, as amended. For every raw address that ends in a colon, whatever stands
  before that colon: no port text is parsed and the call cannot fail on the port; the
  port variable keeps its zero value 0, the value an explicit port \<open>":0"\<close> gives as
  well; the address segment is everything before the trailing colon; and the structured
  address is parsed by module.go from a slash followed by that segment, by part_000 from
  the segment itself.
\<close>

theorem trailing_colon_means_no_port:
  "splitPort (a @ '':'') = Ok (a, 0)
   \<and> splitPort (a @ '':0'') = Ok (a, 0)
   \<and> parseAddress env (a @ '':'') =
       (case NewMultiaddr env (''/'' @ a) of
          Inl m \<Rightarrow> Err (MalformedAddress m)
        | Inr ma \<Rightarrow> Ok (ma, 0))
   \<and> parseAddress_part000 env (a @ '':'') =
       (case NewMultiaddr env a of
          Inl m \<Rightarrow> Err (MalformedAddress m)
        | Inr ma \<Rightarrow> Ok (ma, 0))"
proof -
  have zero: "splitPort (a @ CHR '':'' # ''0'') = Ok (a, 0)"
    by (subst splitPort_port) (simp_all add: Atoi_def isDigit_def)
  show ?thesis using zero
    by (simp add: parseAddress_def parseAddress_part000_def splitPort_trailing)
qed

theorem trailing_colon_means_no_port_witness:
  "splitPort ''ip4/0.0.0.0/tcp/4001:'' = Ok (''ip4/0.0.0.0/tcp/4001'', 0)
   \<and> parseAddress sampleEnv ''ip4/0.0.0.0/tcp/4001:'' =
       Ok ([(''ip4'', ''0.0.0.0''), (''tcp'', ''4001'')], 0)"
  using trailing_colon_means_no_port [of "''ip4/0.0.0.0/tcp/4001''" sampleEnv]
  by (simp add: sampleEnv_def sampleEnvWith_def sampleNewMultiaddr_def TrimRight_def
      sampleProtocols_def validIP4_def validPort_def Atoi_def isDigit_def)

text \<open>
  Claim C5 as stated fails on module.go. The raw address \<open>"/ip4/0.0.0.0/tcp/4001:"\<close>
  ends in a colon and the text before that colon is a multiaddr the parser accepts, yet
  the registration's parsing fails: the parser is not given that text but
  \<open>"//ip4/0.0.0.0/tcp/4001"\<close>. Nor is the port absent: it is 0, as it is for the
  address that ends in \<open>":0"\<close>.
\<close>

theorem trailing_colon_address_rejected_by_module:
  "NewMultiaddr sampleEnv ''/ip4/0.0.0.0/tcp/4001'' =
     Inr [(''ip4'', ''0.0.0.0''), (''tcp'', ''4001'')]
   \<and> parseAddress sampleEnv ''/ip4/0.0.0.0/tcp/4001:'' =
     Err (MalformedAddress ''unknown protocol'')
   \<and> parseAddress (sampleEnvWith Inr) ''/ip4/0.0.0.0/tcp/4001:'' =
     Ok (''//ip4/0.0.0.0/tcp/4001'', 0)
   \<and> splitPort ''/ip4/0.0.0.0/tcp/4001:0'' = splitPort ''/ip4/0.0.0.0/tcp/4001:''"
proof -
  have q: "splitPort (''/ip4/0.0.0.0/tcp/4001'' @ '':'') = Ok (''/ip4/0.0.0.0/tcp/4001'', 0)"
    by (rule splitPort_trailing)
  have z: "splitPort (''/ip4/0.0.0.0/tcp/4001'' @ CHR '':'' # ''0'')
             = Ok (''/ip4/0.0.0.0/tcp/4001'', 0)"
    by (subst splitPort_port) (simp_all add: Atoi_def isDigit_def)
  show ?thesis using q z
    by (simp add: parseAddress_def sample_defs)
qed

text \<open>
  Claim C9. The claim is that the address parsing never panics. It does: on the empty
  address, and on an address without a colon that is a number, the last index is -1, the
  port check passes, and the slice expression \<open>addr[:lastColon]\<close> is out of bounds.
  Both versions of the function do so.
\<close>

theorem address_without_colon_panics:
  "parseAddress env [] = Panic \<and> parseAddress env ''4001'' = Panic
   \<and> parseAddress_part000 env [] = Panic \<and> parseAddress_part000 env ''4001'' = Panic
   \<and> registerMultiaddrURI env (CaddyContext cctx) ''multiaddr:'' [] = ([], Panic)
   \<and> registerMultiaddrURI_part000 env (CaddyContext cctx) ''multiaddr'' [] = ([], Panic)"
  by (simp add: registerMultiaddrURI_def registerMultiaddrURI_part000_def parseAddress_def
      parseAddress_part000_def splitPort_no_colon Atoi_4001)

text \<open>
  Claim C8. Whatever the context and the address: a network token other than the one the
  version takes (\<open>"multiaddr:"\<close> in module.go, \<open>"multiaddr"\<close> in part_000) makes the
  call return an error, and nothing has been read or built when it does.
\<close>

theorem other_network_token_rejected:
  "(network \<noteq> ''multiaddr:'' \<longrightarrow>
      registerMultiaddrURI env ctx network addr =
        ([], Err (case ctx of CaddyContext cctx \<Rightarrow> SchemeMismatchError
                            | OtherContext \<Rightarrow> ContextTypeError)))
   \<and> (network \<noteq> ''multiaddr'' \<longrightarrow>
      registerMultiaddrURI_part000 env ctx network addr =
        ([], Err (case ctx of CaddyContext cctx \<Rightarrow> SchemeMismatchError
                            | OtherContext \<Rightarrow> ContextTypeError)))"
  by (simp add: registerMultiaddrURI_def registerMultiaddrURI_part000_def split: Context.splits)

theorem other_network_token_rejected_witness:
  "registerMultiaddrURI sampleEnv (sampleContext \<lparr> PrivateKey = [], AdvertiseAmino = False \<rparr>)
      ''tcp'' ''ip4/0.0.0.0/tcp/4001:4001'' = ([], Err SchemeMismatchError)
   \<and> registerMultiaddrURI_part000 sampleEnv
        (sampleContext \<lparr> PrivateKey = [], AdvertiseAmino = False \<rparr>)
        ''multiaddr:'' ''/ip4/0.0.0.0/tcp/4001:4001'' = ([], Err SchemeMismatchError)"
  using other_network_token_rejected [of "''tcp''" sampleEnv
      "sampleContext \<lparr> PrivateKey = [], AdvertiseAmino = False \<rparr>" "''ip4/0.0.0.0/tcp/4001:4001''"]
    other_network_token_rejected [of "''multiaddr:''" sampleEnv
      "sampleContext \<lparr> PrivateKey = [], AdvertiseAmino = False \<rparr>" "''/ip4/0.0.0.0/tcp/4001:4001''"]
  by (simp add: sampleContext_def)

section \<open>The claims about the identity and the host\<close>

text \<open>
  Claim C3. A key file is configured and has been read. If its contents hold no PEM
  block, loading the identity fails with EnvelopeFormatError, carrying the rest of the
  input; if the block found is not of type \<open>"PRIVATE KEY"\<close>, it fails with
  UnexpectedKeyType. In both cases the registration, whatever its other arguments, never
  calls \<open>libp2p.New\<close> or \<open>gostream.Listen\<close> and returns no listener; when it gets as
  far as the key, reading the file is all it has done and the error is the one above.
\<close>

theorem bad_key_file_fails_before_host:
  assumes "PrivateKey app \<noteq> []"
    and "ReadFile env (PrivateKey app) = Inr contents"
    and "pemDecode env contents = (blk, rest)"
    and "cctx ''libp2p'' = Inr app"
  shows "(blk = None \<longrightarrow>
            snd (loadIdentity env app) = Err (EnvelopeFormatError rest)
            \<and> \<not> list_ex isLibp2pNew (fst (registerMultiaddrURI env (CaddyContext cctx) network addr))
            \<and> \<not> list_ex isListen (fst (registerMultiaddrURI env (CaddyContext cctx) network addr))
            \<and> (\<forall>l. snd (registerMultiaddrURI env (CaddyContext cctx) network addr) \<noteq> Ok l)
            \<and> (\<forall>ma port. network = ''multiaddr:'' \<and> parseAddress env addr = Ok (ma, port) \<longrightarrow>
                  registerMultiaddrURI env (CaddyContext cctx) network addr =
                    ([EvReadFile (PrivateKey app)], Err (EnvelopeFormatError rest))))
       \<and> (\<forall>b. blk = Some b \<and> pemType b \<noteq> ''PRIVATE KEY'' \<longrightarrow>
            snd (loadIdentity env app) = Err (UnexpectedKeyType (pemType b))
            \<and> \<not> list_ex isLibp2pNew (fst (registerMultiaddrURI env (CaddyContext cctx) network addr))
            \<and> \<not> list_ex isListen (fst (registerMultiaddrURI env (CaddyContext cctx) network addr))
            \<and> (\<forall>l. snd (registerMultiaddrURI env (CaddyContext cctx) network addr) \<noteq> Ok l)
            \<and> (\<forall>ma port. network = ''multiaddr:'' \<and> parseAddress env addr = Ok (ma, port) \<longrightarrow>
                  registerMultiaddrURI env (CaddyContext cctx) network addr =
                    ([EvReadFile (PrivateKey app)], Err (UnexpectedKeyType (pemType b)))))"
proof -
  have none: "loadIdentity env app = ([EvReadFile (PrivateKey app)], Err (EnvelopeFormatError rest))"
    if "blk = None"
    using assms that by (simp add: loadIdentity_def)
  have some: "loadIdentity env app = ([EvReadFile (PrivateKey app)], Err (UnexpectedKeyType (pemType b)))"
    if "blk = Some b" and "pemType b \<noteq> ''PRIVATE KEY''" for b
    using assms that by (simp add: loadIdentity_def)
  have reg: "\<not> list_ex isLibp2pNew (fst (registerMultiaddrURI env (CaddyContext cctx) network addr))
            \<and> \<not> list_ex isListen (fst (registerMultiaddrURI env (CaddyContext cctx) network addr))
            \<and> (\<forall>l. snd (registerMultiaddrURI env (CaddyContext cctx) network addr) \<noteq> Ok l)
            \<and> (\<forall>ma port. network = ''multiaddr:'' \<and> parseAddress env addr = Ok (ma, port) \<longrightarrow>
                  registerMultiaddrURI env (CaddyContext cctx) network addr =
                    ([EvReadFile (PrivateKey app)], Err e))"
    if li: "loadIdentity env app = ([EvReadFile (PrivateKey app)], Err e)" for e
    by (simp add: registerMultiaddrURI_def li assms(4) split: outcome.splits prod.splits)
  show ?thesis using none some reg by simp
qed

theorem bad_key_file_fails_before_host_witness:
  "registerMultiaddrURI sampleEnv (sampleContext \<lparr> PrivateKey = ''notes.txt'', AdvertiseAmino = True \<rparr>)
      ''multiaddr:'' ''ip4/0.0.0.0/tcp/4001:4001''
     = ([EvReadFile ''notes.txt''], Err (EnvelopeFormatError ''hello''))
   \<and> registerMultiaddrURI sampleEnv (sampleContext \<lparr> PrivateKey = ''cert.pem'', AdvertiseAmino = True \<rparr>)
      ''multiaddr:'' ''ip4/0.0.0.0/tcp/4001:4001''
     = ([EvReadFile ''cert.pem''], Err (UnexpectedKeyType ''CERTIFICATE''))"
proof -
  let ?notes = "\<lparr> PrivateKey = ''notes.txt'', AdvertiseAmino = True \<rparr>"
  let ?cert = "\<lparr> PrivateKey = ''cert.pem'', AdvertiseAmino = True \<rparr>"
  let ?look = "\<lambda>app name. if name = ''libp2p'' then Inr app else Inl ''unknown app''"
  have pa: "parseAddress sampleEnv ''ip4/0.0.0.0/tcp/4001:4001''
              = Ok ([(''ip4'', ''0.0.0.0''), (''tcp'', ''4001'')], 4001)"
    using splitPort_port [of "''4001''" "''ip4/0.0.0.0/tcp/4001''"]
    by (simp add: parseAddress_def sample_defs)
  have n: "registerMultiaddrURI sampleEnv (CaddyContext (?look ?notes)) ''multiaddr:''
             ''ip4/0.0.0.0/tcp/4001:4001'' = ([EvReadFile ''notes.txt''], Err (EnvelopeFormatError ''hello''))"
    using bad_key_file_fails_before_host [of ?notes sampleEnv "''hello''" None "''hello''"
        "?look ?notes" "''multiaddr:''" "''ip4/0.0.0.0/tcp/4001:4001''"] pa
    by (simp add: sampleEnv_def sampleEnvWith_def)
  have c: "registerMultiaddrURI sampleEnv (CaddyContext (?look ?cert)) ''multiaddr:''
             ''ip4/0.0.0.0/tcp/4001:4001'' = ([EvReadFile ''cert.pem''], Err (UnexpectedKeyType ''CERTIFICATE''))"
    using bad_key_file_fails_before_host [of ?cert sampleEnv "''<certificate>''"
        "Some \<lparr> pemType = ''CERTIFICATE'', pemBytes = ''cert'' \<rparr>" "[]"
        "?look ?cert" "''multiaddr:''" "''ip4/0.0.0.0/tcp/4001:4001''"] pa
    by (simp add: sampleEnv_def sampleEnvWith_def)
  show ?thesis using n c by (simp add: sampleContext_def)
qed

text \<open>
  Claim C7. When the PKCS8 decoding has returned a key: an ed25519 key held by value is
  replaced by the pointer to it, every other key is left as it is, and the key
  conversion of libp2p is called on the result.
\<close>

theorem ed25519_value_key_becomes_pointer:
  assumes "PrivateKey app \<noteq> []"
    and "ReadFile env (PrivateKey app) = Inr contents"
    and "pemDecode env contents = (Some blk, rest)"
    and "pemType blk = ''PRIVATE KEY''"
    and "ParsePKCS8PrivateKey env (pemBytes blk) = Inr stdKey"
  shows "(\<forall>material. stdKey = KeyValue Ed25519 material \<longrightarrow>
            snd (loadIdentity env app) =
              (case KeyPairFromStdKey env (KeyPointer Ed25519 material) of
                 Inl m \<Rightarrow> Err (KeyConversionError m)
               | Inr sk \<Rightarrow> Ok (Some sk)))
       \<and> ((\<forall>material. stdKey \<noteq> KeyValue Ed25519 material) \<longrightarrow>
            snd (loadIdentity env app) =
              (case KeyPairFromStdKey env stdKey of
                 Inl m \<Rightarrow> Err (KeyConversionError m)
               | Inr sk \<Rightarrow> Ok (Some sk)))"
proof -
  have li: "snd (loadIdentity env app) =
              (case KeyPairFromStdKey env (ed25519Pointer stdKey) of
                 Inl m \<Rightarrow> Err (KeyConversionError m)
               | Inr sk \<Rightarrow> Ok (Some sk))"
    using assms by (simp add: loadIdentity_def)
  have ptr: "ed25519Pointer (KeyValue Ed25519 material) = KeyPointer Ed25519 material"
    for material
    by (simp add: ed25519Pointer_def)
  have same: "ed25519Pointer stdKey = stdKey" if "\<forall>material. stdKey \<noteq> KeyValue Ed25519 material"
    using that by (cases stdKey) (auto simp: ed25519Pointer_def)
  show ?thesis using li ptr same by auto
qed

theorem ed25519_value_key_becomes_pointer_witness:
  "snd (loadIdentity sampleEnv \<lparr> PrivateKey = ''key.pem'', AdvertiseAmino = False \<rparr>)
     = Ok (Some (KeyPointer Ed25519 ''seed''))
   \<and> snd (loadIdentity sampleEnv \<lparr> PrivateKey = ''rsa.pem'', AdvertiseAmino = False \<rparr>)
     = Ok (Some (KeyPointer RSA ''primes''))"
  using ed25519_value_key_becomes_pointer [of
      "\<lparr> PrivateKey = ''key.pem'', AdvertiseAmino = False \<rparr>" sampleEnv "''<private key>''"
      "\<lparr> pemType = ''PRIVATE KEY'', pemBytes = ''ed25519'' \<rparr>" "[]" "KeyValue Ed25519 ''seed''"]
    ed25519_value_key_becomes_pointer [of
      "\<lparr> PrivateKey = ''rsa.pem'', AdvertiseAmino = False \<rparr>" sampleEnv "''<rsa private key>''"
      "\<lparr> pemType = ''PRIVATE KEY'', pemBytes = ''rsa'' \<rparr>" "[]" "KeyPointer RSA ''primes''"]
  by (simp add: sampleEnv_def sampleEnvWith_def)

lemma register_reaches_host:
  assumes "cctx ''libp2p'' = Inr app"
    and "EvLibp2pNew opts \<in> set (fst (registerMultiaddrURI env (CaddyContext cctx) network addr))"
  shows "\<exists>ma sk. opts = hostOptions ma sk app
           \<and> registerMultiaddrURI env (CaddyContext cctx) network addr =
               (fst (loadIdentity env app) @ fst (startHost env opts [IgnoreEOF]),
                snd (startHost env opts [IgnoreEOF]))"
proof (cases "network = ''multiaddr:''")
  case False
  with assms(2) show ?thesis by (simp add: registerMultiaddrURI_def)
next
  case net: True
  show ?thesis
  proof (cases "parseAddress env addr")
    case Panic
    with assms(2) net show ?thesis by (simp add: registerMultiaddrURI_def)
  next
    case (Err e)
    with assms(2) net show ?thesis by (simp add: registerMultiaddrURI_def)
  next
    case (Ok res)
    obtain ma port where res: "res = (ma, port)" by (cases res)
    have noev: "EvLibp2pNew opts \<notin> set (fst (loadIdentity env app))"
      by (simp add: loadIdentity_def)
    obtain tr r where li: "loadIdentity env app = (tr, r)" by (cases "loadIdentity env app")
    show ?thesis
    proof (cases r)
      case Panic
      with assms net Ok res li noev show ?thesis by (simp add: registerMultiaddrURI_def)
    next
      case (Err e)
      with assms net Ok res li noev show ?thesis by (simp add: registerMultiaddrURI_def)
    next
      case sk: (Ok sk)
      have "EvLibp2pNew opts \<in> set (fst (startHost env (hostOptions ma sk app) [IgnoreEOF]))"
        using assms net Ok res li noev sk
        by (simp add: registerMultiaddrURI_def split: prod.splits)
      then have "opts = hostOptions ma sk app"
        by (auto simp: startHost_def split: sum.splits)
      then show ?thesis using assms net Ok res li sk
        by (auto simp: registerMultiaddrURI_def split: prod.splits)
    qed
  qed
qed

text \<open>
  Claim C4. For every registration call that gets as far as \<open>libp2p.New\<close>, with the
  options it passes: they are the assembled options; when AdvertiseAmino is set they
  hold the routing option of a DHT in client mode, when it is not they hold no routing
  option at all; \<open>libp2p.New\<close> is called once; and when that call fails, as it does
  when the routing cannot be constructed, the registration fails with its error and no
  listener is opened: there is no second attempt without routing.
\<close>

theorem routing_option_follows_flag:
  assumes "cctx ''libp2p'' = Inr app"
    and "EvLibp2pNew opts \<in> set (fst (registerMultiaddrURI env (CaddyContext cctx) network addr))"
  shows "(\<exists>ma sk. opts = hostOptions ma sk app)
       \<and> (AdvertiseAmino app \<longrightarrow> Routing (DHT ModeClient) \<in> set opts)
       \<and> (\<not> AdvertiseAmino app \<longrightarrow> (\<forall>r. Routing r \<notin> set opts))
       \<and> length (filter isLibp2pNew (fst (registerMultiaddrURI env (CaddyContext cctx) network addr))) = 1
       \<and> (\<forall>m. libp2pNew env opts = Inl m \<longrightarrow>
             snd (registerMultiaddrURI env (CaddyContext cctx) network addr)
               = Err (HostConstructionError m)
             \<and> \<not> list_ex isListen (fst (registerMultiaddrURI env (CaddyContext cctx) network addr)))"
proof -
  from register_reaches_host [OF assms] obtain ma sk where
    opts: "opts = hostOptions ma sk app" and
    reg: "registerMultiaddrURI env (CaddyContext cctx) network addr =
               (fst (loadIdentity env app) @ fst (startHost env opts [IgnoreEOF]),
                snd (startHost env opts [IgnoreEOF]))"
    by blast
  have flag: "(AdvertiseAmino app \<longrightarrow> Routing (DHT ModeClient) \<in> set opts)
       \<and> (\<not> AdvertiseAmino app \<longrightarrow> (\<forall>r. Routing r \<notin> set opts))"
    unfolding opts by (auto simp: hostOptions_def split: option.splits)
  have once: "length (filter isLibp2pNew (fst (loadIdentity env app) @ fst (startHost env opts [IgnoreEOF]))) = 1"
    by (simp add: loadIdentity_def startHost_def split: sum.splits)
  have fail: "snd (startHost env opts [IgnoreEOF]) = Err (HostConstructionError m)
       \<and> \<not> list_ex isListen (fst (loadIdentity env app) @ fst (startHost env opts [IgnoreEOF]))"
    if "libp2pNew env opts = Inl m" for m
    using that by (simp add: loadIdentity_def startHost_def)
  show ?thesis unfolding reg using opts flag once fail by auto
qed

theorem routing_option_follows_flag_witness:
  "registerMultiaddrURI failingRoutingEnv
      (sampleContext \<lparr> PrivateKey = [], AdvertiseAmino = True \<rparr>)
      ''multiaddr:'' ''ip4/0.0.0.0/tcp/4001:4001''
    = ([EvLibp2pNew [ListenAddrs [(''ip4'', ''0.0.0.0''), (''tcp'', ''4001'')], DefaultTransports,
          Transport WebRTC, Routing (DHT ModeClient)]],
       Err (HostConstructionError ''routing: dht construction failed''))
   \<and> registerMultiaddrURI failingRoutingEnv
      (sampleContext \<lparr> PrivateKey = [], AdvertiseAmino = False \<rparr>)
      ''multiaddr:'' ''ip4/0.0.0.0/tcp/4001:4001''
    = ([EvLibp2pNew [ListenAddrs [(''ip4'', ''0.0.0.0''), (''tcp'', ''4001'')], DefaultTransports,
          Transport WebRTC],
        EvPrintID [ListenAddrs [(''ip4'', ''0.0.0.0''), (''tcp'', ''4001'')], DefaultTransports,
          Transport WebRTC],
        EvPrintAddrs [ListenAddrs [(''ip4'', ''0.0.0.0''), (''tcp'', ''4001'')], DefaultTransports,
          Transport WebRTC],
        EvListen [ListenAddrs [(''ip4'', ''0.0.0.0''), (''tcp'', ''4001'')], DefaultTransports,
          Transport WebRTC] ''/http/1.1''],
       Ok ([ListenAddrs [(''ip4'', ''0.0.0.0''), (''tcp'', ''4001'')], DefaultTransports,
          Transport WebRTC], ''/http/1.1'', [IgnoreEOF]))"
proof -
  let ?on = "\<lparr> PrivateKey = [], AdvertiseAmino = True \<rparr>"
  let ?off = "\<lparr> PrivateKey = [], AdvertiseAmino = False \<rparr>"
  let ?look = "\<lambda>app name. if name = ''libp2p'' then Inr app else Inl ''unknown app''"
  let ?base = "[ListenAddrs [(''ip4'', ''0.0.0.0''), (''tcp'', ''4001'')], DefaultTransports,
          Transport WebRTC]"
  have sp: "splitPort ''ip4/0.0.0.0/tcp/4001:4001'' = Ok (''ip4/0.0.0.0/tcp/4001'', 4001)"
    using splitPort_port [of "''4001''" "''ip4/0.0.0.0/tcp/4001''"] by (simp add: Atoi_4001)
  have on: "registerMultiaddrURI failingRoutingEnv (CaddyContext (?look ?on)) ''multiaddr:''
      ''ip4/0.0.0.0/tcp/4001:4001''
    = ([EvLibp2pNew (?base @ [Routing (DHT ModeClient)])],
       Err (HostConstructionError ''routing: dht construction failed''))"
    by (simp add: register_defs sp failingRoutingEnv_def sample_defs)
  have off: "registerMultiaddrURI failingRoutingEnv (CaddyContext (?look ?off)) ''multiaddr:''
      ''ip4/0.0.0.0/tcp/4001:4001''
    = ([EvLibp2pNew ?base, EvPrintID ?base, EvPrintAddrs ?base, EvListen ?base ''/http/1.1''],
       Ok (?base, ''/http/1.1'', [IgnoreEOF]))"
    by (simp add: register_defs sp failingRoutingEnv_def sample_defs)
  have "?look ?on ''libp2p'' = Inr ?on" by simp
  moreover have "EvLibp2pNew (?base @ [Routing (DHT ModeClient)])
      \<in> set (fst (registerMultiaddrURI failingRoutingEnv (CaddyContext (?look ?on)) ''multiaddr:''
      ''ip4/0.0.0.0/tcp/4001:4001''))"
    unfolding on by simp
  ultimately have "snd (registerMultiaddrURI failingRoutingEnv (CaddyContext (?look ?on)) ''multiaddr:''
      ''ip4/0.0.0.0/tcp/4001:4001'')
     = Err (HostConstructionError ''routing: dht construction failed'')"
    using routing_option_follows_flag [of "?look ?on" ?on "?base @ [Routing (DHT ModeClient)]"
        failingRoutingEnv "''multiaddr:''" "''ip4/0.0.0.0/tcp/4001:4001''"]
    by (simp add: failingRoutingEnv_def)
  then show ?thesis using on off by (simp add: sampleContext_def)
qed

section \<open>The claim about the handler\<close>

text \<open>
  Claim C6. For every request, whatever its method: when its path is the well-known
  path, the handler calls the well-known handler of the libp2p host, does not call the
  next handler and returns no error; for every other path it calls the next handler
  with the same writer and request, and returns what that returns.
\<close>

theorem ServeHTTP_intercepts_well_known_path:
  "(reqURLPath r = WellKnownProtocols env \<longrightarrow>
      ServeHTTP env wellKnownHandler w r next = ([CalledWellKnown r], wellKnownHandler w r, None))
   \<and> (reqURLPath r \<noteq> WellKnownProtocols env \<longrightarrow>
      ServeHTTP env wellKnownHandler w r next = ([CalledNext r], next w r))"
  by (simp add: ServeHTTP_def)

theorem ServeHTTP_intercepts_well_known_path_witness:
  "ServeHTTP sampleEnv (\<lambda>w r. w @ [''protocols'']) []
      \<lparr> reqMethod = ''POST'', reqURLPath = ''/.well-known/libp2p/protocols'', reqBody = ''x'' \<rparr>
      (\<lambda>w r. (w @ [reqURLPath r], Some ''not found''))
    = ([CalledWellKnown \<lparr> reqMethod = ''POST'',
          reqURLPath = ''/.well-known/libp2p/protocols'', reqBody = ''x'' \<rparr>],
       [''protocols''], None)
   \<and> ServeHTTP sampleEnv (\<lambda>w r. w @ [''protocols'']) []
      \<lparr> reqMethod = ''GET'', reqURLPath = ''/index.html'', reqBody = [] \<rparr>
      (\<lambda>w r. (w @ [reqURLPath r], Some ''not found''))
    = ([CalledNext \<lparr> reqMethod = ''GET'', reqURLPath = ''/index.html'', reqBody = [] \<rparr>],
       [''/index.html''], Some ''not found'')"
  using ServeHTTP_intercepts_well_known_path [of
      "\<lparr> reqMethod = ''POST'', reqURLPath = ''/.well-known/libp2p/protocols'', reqBody = ''x'' \<rparr>"
      sampleEnv "\<lambda>w r. w @ [''protocols'']" "[]" "\<lambda>w r. (w @ [reqURLPath r], Some ''not found'')"]
    ServeHTTP_intercepts_well_known_path [of
      "\<lparr> reqMethod = ''GET'', reqURLPath = ''/index.html'', reqBody = [] \<rparr>"
      sampleEnv "\<lambda>w r. w @ [''protocols'']" "[]" "\<lambda>w r. (w @ [reqURLPath r], Some ''not found'')"]
  by (simp add: sampleEnv_def sampleEnvWith_def)

section \<open>The claim about the two versions\<close>

text \<open>
  Claim C10, as amended. The two versions differ in three constants and in nothing
  else: module.go takes the token \<open>"multiaddr:"\<close>, puts a slash before the text it
  hands to the multiaddr parser and opens the listener with IgnoreEOF; part_000 takes
  the token \<open>"multiaddr"\<close>, hands the text over as it is and opens the listener with
  no option. So for every context, token and address, module.go called with the token
  followed by a colon does what part_000 does with the token, run against a parser that
  puts the slash first and a \<open>gostream.Listen\<close> that adds IgnoreEOF.
\<close>

theorem versions_agree_up_to_three_constants:
  "registerMultiaddrURI env ctx (network @ '':'') addr =
     registerMultiaddrURI_part000
       (env \<lparr> NewMultiaddr := (\<lambda>s. NewMultiaddr env (''/'' @ s)),
              gostreamListen := (\<lambda>h p lopts. gostreamListen env h p (IgnoreEOF # lopts)) \<rparr>)
       ctx network addr"
proof -
  let ?env = "env \<lparr> NewMultiaddr := (\<lambda>s. NewMultiaddr env (''/'' @ s)),
              gostreamListen := (\<lambda>h p lopts. gostreamListen env h p (IgnoreEOF # lopts)) \<rparr>"
  have pa: "parseAddress_part000 ?env addr = parseAddress env addr"
    by (simp add: parseAddress_def parseAddress_part000_def split: outcome.splits prod.splits)
  have li: "loadIdentity ?env app = loadIdentity env app" for app
    by (simp add: loadIdentity_def split: sum.splits prod.splits option.splits)
  have sh: "startHost ?env opts [] = startHost env opts [IgnoreEOF]" for opts
    by (simp add: startHost_def split: sum.splits)
  show ?thesis
    unfolding registerMultiaddrURI_def registerMultiaddrURI_part000_def pa li sh token_with_colon
    by (rule refl)
qed

theorem versions_agree_up_to_three_constants_witness:
  "registerMultiaddrURI sampleEnv (sampleContext \<lparr> PrivateKey = [], AdvertiseAmino = False \<rparr>)
      ''multiaddr:'' ''ip4/0.0.0.0/tcp/4001:4001''
   = registerMultiaddrURI_part000
       (sampleEnv \<lparr> NewMultiaddr := (\<lambda>s. NewMultiaddr sampleEnv (''/'' @ s)),
              gostreamListen := (\<lambda>h p lopts. gostreamListen sampleEnv h p (IgnoreEOF # lopts)) \<rparr>)
       (sampleContext \<lparr> PrivateKey = [], AdvertiseAmino = False \<rparr>)
       ''multiaddr'' ''ip4/0.0.0.0/tcp/4001:4001''"
  using versions_agree_up_to_three_constants [of sampleEnv
      "sampleContext \<lparr> PrivateKey = [], AdvertiseAmino = False \<rparr>" "''multiaddr''"
      "''ip4/0.0.0.0/tcp/4001:4001''"]
  by simp

text \<open>
  Claim C10 as stated fails on each of its three points: the token \<open>"multiaddr"\<close> is
  refused by module.go and taken by part_000; the address \<open>"/ip4/0.0.0.0/tcp/4001:4001"\<close>
  that part_000 builds a host from is rejected by module.go; and where both return a
  listener, the one of part_000 has no option and the one of module.go has IgnoreEOF.
\<close>

theorem versions_not_equivalent:
  "registerMultiaddrURI sampleEnv (sampleContext \<lparr> PrivateKey = [], AdvertiseAmino = False \<rparr>)
      ''multiaddr'' ''/ip4/0.0.0.0/tcp/4001:4001'' = ([], Err SchemeMismatchError)
   \<and> snd (registerMultiaddrURI_part000 sampleEnv
        (sampleContext \<lparr> PrivateKey = [], AdvertiseAmino = False \<rparr>)
        ''multiaddr'' ''/ip4/0.0.0.0/tcp/4001:4001'')
      = Ok ([ListenAddrs [(''ip4'', ''0.0.0.0''), (''tcp'', ''4001'')], DefaultTransports,
             Transport WebRTC], ''/http/1.1'', [])
   \<and> registerMultiaddrURI sampleEnv (sampleContext \<lparr> PrivateKey = [], AdvertiseAmino = False \<rparr>)
      ''multiaddr:'' ''/ip4/0.0.0.0/tcp/4001:4001''
      = ([], Err (MalformedAddress ''unknown protocol''))
   \<and> snd (registerMultiaddrURI sampleEnv
        (sampleContext \<lparr> PrivateKey = [], AdvertiseAmino = False \<rparr>)
        ''multiaddr:'' ''ip4/0.0.0.0/tcp/4001:4001'')
      = Ok ([ListenAddrs [(''ip4'', ''0.0.0.0''), (''tcp'', ''4001'')], DefaultTransports,
             Transport WebRTC], ''/http/1.1'', [IgnoreEOF])"
proof -
  have p: "splitPort ''/ip4/0.0.0.0/tcp/4001:4001'' = Ok (''/ip4/0.0.0.0/tcp/4001'', 4001)"
    using splitPort_port [of "''4001''" "''/ip4/0.0.0.0/tcp/4001''"] by (simp add: Atoi_4001)
  have q: "splitPort ''ip4/0.0.0.0/tcp/4001:4001'' = Ok (''ip4/0.0.0.0/tcp/4001'', 4001)"
    using splitPort_port [of "''4001''" "''ip4/0.0.0.0/tcp/4001''"] by (simp add: Atoi_4001)
  show ?thesis
    by (simp add: register_defs registerMultiaddrURI_part000_def parseAddress_part000_def p q sample_defs)
qed

end
